theory Spec2Isabelle
  imports Complex_Main
begin

section \<open>The breathing session screen (ControlPanel.tsx, SessionScreen)\<close>

text \<open>
  The session is a React component. Its state hooks and refs are the fields of a record,
  and every callback of the component (a timer callback, an event handler, an effect
  body) is a function from the state before the callback to the state after it.
  JavaScript numbers are modelled by exact numbers: durations and the countdown are
  rationals, times in milliseconds and whole seconds are integers; the rounding of
  IEEE doubles is outside the model.
\<close>

datatype phase = Inhale | Hold | Exhale | Pause

record BreathPattern =
  inhale :: rat
  hold :: rat
  exhale :: rat
  pause :: rat

text \<open>\<open>pattern[phase]\<close>: the configured duration of a phase, in seconds.\<close>

fun patternAt :: "BreathPattern \<Rightarrow> phase \<Rightarrow> rat" where
  "patternAt p Inhale = inhale p"
| "patternAt p Hold = hold p"
| "patternAt p Exhale = exhale p"
| "patternAt p Pause = pause p"

text \<open>
  The state hooks \<open>currentPhase\<close>, \<open>isActive\<close>, \<open>cycles\<close>, \<open>timeRemaining\<close>,
  \<open>sessionDuration\<close> and the ref \<open>startTimeRef\<close> (epoch milliseconds).
\<close>

record screen =
  currentPhase :: phase
  isActive :: bool
  cycles :: nat
  timeRemaining :: rat
  sessionDuration :: int
  startTimeRef :: int

text \<open>\<open>const [totalCycles] = useState(10)\<close>: the default target, never updated.\<close>

definition totalCycles :: nat where
  "totalCycles = 10"

text \<open>The values of the state hooks when the component mounts at time \<open>now\<close>.\<close>

definition initialState :: "int \<Rightarrow> screen" where
  "initialState now =
     \<lparr>currentPhase = Inhale, isActive = True, cycles = 0, timeRemaining = 0,
      sessionDuration = 0, startTimeRef = now\<rparr>"

text \<open>
  A pending \<open>runPhase\<close> promise: the phase it was started for, the local variable
  \<open>remaining\<close> of its countdown interval, and whether the timeout registered in
  \<open>phaseTimeoutRef\<close> for it is still armed (the effect cleanup clears that timeout and
  nothing else; the countdown interval is cleared only by its own callback or by the
  timeout).
\<close>

record countdown =
  cphase :: phase
  remaining :: rat
  timeoutArmed :: bool

text \<open>
  \<open>runPhase(phase, duration)\<close>: a duration of 0 gives an already resolved promise and
  touches nothing (\<open>None\<close>); any other duration sets the phase and the time remaining and
  starts the countdown and the timeout.
\<close>

definition runPhase :: "phase \<Rightarrow> rat \<Rightarrow> screen \<Rightarrow> countdown option \<times> screen" where
  "runPhase ph d scr =
     (if d = 0 then (None, scr)
      else (Some \<lparr>cphase = ph, remaining = d, timeoutArmed = True\<rparr>,
            scr\<lparr>currentPhase := ph, timeRemaining := d\<rparr>))"

text \<open>
  \<open>runCycle\<close> awaits the four phases in order and then increments \<open>cycles\<close>.
  \<open>runCycleFrom p phs\<close> is the rest of that coroutine when the phases \<open>phs\<close> are still
  to be run: it proceeds to the first phase whose promise is pending, or to the end.
  The tests \<open>if (!isActive) return\<close> between the phases read the value of \<open>isActive\<close>
  captured when the effect ran, which is \<open>true\<close> (the effect returns at once
  otherwise), so they never leave the coroutine.
\<close>

fun runCycleFrom :: "BreathPattern \<Rightarrow> phase list \<Rightarrow> screen \<Rightarrow> countdown option \<times> screen" where
  "runCycleFrom p [] scr = (None, scr\<lparr>cycles := cycles scr + 1\<rparr>)"
| "runCycleFrom p (ph # phs) scr =
     (case runPhase ph (patternAt p ph) scr of
        (Some c, scr') \<Rightarrow> (Some c, scr')
      | (None, scr') \<Rightarrow> runCycleFrom p phs scr')"

definition runCycle :: "BreathPattern \<Rightarrow> screen \<Rightarrow> countdown option \<times> screen" where
  "runCycle p scr = runCycleFrom p [Inhale, Hold, Exhale, Pause] scr"

fun phasesAfter :: "phase \<Rightarrow> phase list" where
  "phasesAfter Inhale = [Hold, Exhale, Pause]"
| "phasesAfter Hold = [Exhale, Pause]"
| "phasesAfter Exhale = [Pause]"
| "phasesAfter Pause = []"

text \<open>
  The breathing-cycle effect, with dependencies \<open>[pattern, isActive, cycles]\<close>: it
  returns at once when the session is not active and starts \<open>runCycle\<close> otherwise. When
  \<open>runCycle\<close> reaches \<open>setCycles(prev => prev + 1)\<close> with no phase pending (all four
  durations are 0) the dependency \<open>cycles\<close> has changed and React runs the effect again;
  the function follows these runs up to the first pending phase and has no value
  (\<open>None\<close>) when they never end.
  A coroutine that is pending when the session is paused is not stopped; the functions
  below apply to each pending coroutine and the one screen state they all write.
\<close>

partial_function (option) breathingEffect :: "BreathPattern \<Rightarrow> screen \<Rightarrow> (countdown option \<times> screen) option" where
  "breathingEffect p scr =
     (if \<not> isActive scr then Some (None, scr)
      else (case runCycle p scr of
              (Some c, scr') \<Rightarrow> Some (Some c, scr')
            | (None, scr') \<Rightarrow> breathingEffect p scr'))"

text \<open>
  The coroutine goes on with the phases \<open>phs\<close>. When it reaches
  \<open>setCycles(prev => prev + 1)\<close> the dependency \<open>cycles\<close> has changed and React runs the
  effect again, in the same instant.
\<close>

definition continueCycle :: "BreathPattern \<Rightarrow> phase list \<Rightarrow> screen \<Rightarrow> (countdown option \<times> screen) option" where
  "continueCycle p phs scr =
     (case runCycleFrom p phs scr of
        (Some c', scr') \<Rightarrow> Some (Some c', scr')
      | (None, scr') \<Rightarrow> breathingEffect p scr')"

text \<open>\<open>resolve()\<close> of a pending phase: the coroutine goes on with the phases after it.\<close>

definition resolvePhase :: "BreathPattern \<Rightarrow> countdown \<Rightarrow> screen \<Rightarrow> (countdown option \<times> screen) option" where
  "resolvePhase p c scr = continueCycle p (phasesAfter (cphase c)) scr"

text \<open>
  The callback of the 100 ms countdown interval:
  \<open>remaining -= 0.1; setTimeRemaining(Math.max(0, remaining)); if (remaining <= 0) {clearInterval(countdown); resolve()}\<close>.
\<close>

definition countdownTick :: "BreathPattern \<Rightarrow> countdown \<Rightarrow> screen \<Rightarrow> (countdown option \<times> screen) option" where
  "countdownTick p c scr =
     (let r = remaining c - 1 / 10;
          scr' = scr\<lparr>timeRemaining := max 0 r\<rparr>
      in if r \<le> 0 then resolvePhase p c scr'
         else Some (Some (c\<lparr>remaining := r\<rparr>), scr'))"

text \<open>
  The callback of the phase timeout, \<open>setTimeout(..., duration * 1000)\<close>: it clears the
  countdown and resolves. A timeout that the effect cleanup has cleared never fires.
\<close>

definition phaseTimeout :: "BreathPattern \<Rightarrow> countdown \<Rightarrow> screen \<Rightarrow> (countdown option \<times> screen) option" where
  "phaseTimeout p c scr = (if timeoutArmed c then resolvePhase p c scr else Some (Some c, scr))"

text \<open>The cleanup of the breathing-cycle effect: \<open>clearTimeout(phaseTimeoutRef.current)\<close>.\<close>

definition effectCleanup :: "countdown \<Rightarrow> countdown" where
  "effectCleanup c = c\<lparr>timeoutArmed := False\<rparr>"

text \<open>
  The two timers of a pending phase. \<open>fire\<close> runs the callback of one of them; when no
  phase is pending there is no timer and nothing happens. \<open>fireAll\<close> runs a sequence of
  callbacks in the order in which the timers deliver them.
\<close>

datatype timerEvent = CountdownInterval | PhaseTimeout

fun fire :: "BreathPattern \<Rightarrow> timerEvent \<Rightarrow> countdown option \<times> screen \<Rightarrow> (countdown option \<times> screen) option" where
  "fire p e (None, scr) = Some (None, scr)"
| "fire p CountdownInterval (Some c, scr) = countdownTick p c scr"
| "fire p PhaseTimeout (Some c, scr) = phaseTimeout p c scr"

fun fireAll :: "BreathPattern \<Rightarrow> timerEvent list \<Rightarrow> countdown option \<times> screen \<Rightarrow> (countdown option \<times> screen) option" where
  "fireAll p [] st = Some st"
| "fireAll p (e # es) st = Option.bind (fire p e st) (fireAll p es)"

text \<open>
  A phase has been entered: its promise is pending, it is the phase on display, and its
  configured duration is not 0.
\<close>

definition phaseEntered :: "BreathPattern \<Rightarrow> countdown option \<times> screen \<Rightarrow> bool" where
  "phaseEntered p st =
     (case fst st of
        None \<Rightarrow> False
      | Some c \<Rightarrow> patternAt p (cphase c) \<noteq> 0 \<and> currentPhase (snd st) = cphase c)"

text \<open>
  The duration tracker, an interval of 1 s set up once at mount and cleared only at
  unmount: \<open>setSessionDuration(Math.floor((Date.now() - startTimeRef.current) / 1000))\<close>.
\<close>

definition durationTick :: "int \<Rightarrow> screen \<Rightarrow> screen" where
  "durationTick now scr = scr\<lparr>sessionDuration := (now - startTimeRef scr) div 1000\<rparr>"

text \<open>
  \<open>toggleSession\<close>: \<open>setIsActive(!isActive)\<close>, and when the session was paused the start
  time is reset to \<open>Date.now() - sessionDuration * 1000\<close>.
\<close>

definition toggleSession :: "int \<Rightarrow> screen \<Rightarrow> screen" where
  "toggleSession now scr =
     scr\<lparr>isActive := \<not> isActive scr,
         startTimeRef := (if \<not> isActive scr then now - sessionDuration scr * 1000
                          else startTimeRef scr)\<rparr>"

text \<open>
  Mounting \<open>SessionScreen\<close> with a pattern: the initial state, then the first run of the
  breathing-cycle effect. No other code runs between the request to start and the
  first phase.
\<close>

definition SessionScreen :: "int \<Rightarrow> BreathPattern \<Rightarrow> (countdown option \<times> screen) option" where
  "SessionScreen now p = breathingEffect p (initialState now)"

section \<open>The mounted component and its events\<close>

text \<open>
  The mounted component: the screen state, the coroutines that \<open>runCycle\<close> has started,
  and the ref \<open>phaseTimeoutRef\<close>. Every run of the effect that starts a coroutine opens a
  slot; the slot holds the pending phase of that coroutine and, when the coroutine has
  counted its cycle and the effect has run again, of the coroutine that this run
  started; it is empty when nothing is pending there any more. \<open>phaseTimeoutRef\<close> is the
  slot whose phase registered its timeout last.
\<close>

record session =
  hooks :: screen
  coroutines :: "countdown option list"
  phaseTimeoutRef :: "nat option"

text \<open>
  The cleanup of the breathing-cycle effect on the component: the one timeout in
  \<open>phaseTimeoutRef\<close> is cleared, whichever coroutine it belongs to, and no interval is.
\<close>

definition clearPhaseTimeout :: "session \<Rightarrow> session" where
  "clearPhaseTimeout s =
     (case phaseTimeoutRef s of
        None \<Rightarrow> s
      | Some i \<Rightarrow>
          if i < length (coroutines s)
          then s\<lparr>coroutines := (coroutines s)[i := map_option effectCleanup (coroutines s ! i)]\<rparr>
          else s)"

text \<open>
  The events of a mounted component: a timer of the coroutine in a slot, the 1 s
  interval of the duration tracker, and a click on the orb or on the play button
  (\<open>toggleSession\<close>). The times are the values of \<open>Date.now()\<close>.
\<close>

datatype screenEvent = Timer nat timerEvent | DurationInterval int | OrbClick int

text \<open>Whether the callback resolves the phase, so that the coroutine goes on.\<close>

fun resolves :: "timerEvent \<Rightarrow> countdown \<Rightarrow> bool" where
  "resolves CountdownInterval c = (remaining c - 1 / 10 \<le> 0)"
| "resolves PhaseTimeout c = timeoutArmed c"

text \<open>
  One event. A timer callback of a slot runs on the screen state; when it has counted a
  cycle (\<open>cycles\<close> changed) the effect runs again; a phase that it started has registered
  its timeout in \<open>phaseTimeoutRef\<close>. A click toggles and the effect runs again
  (\<open>isActive\<close> changed); a coroutine that this run starts opens a new slot. Before the
  effect runs again React calls the cleanup that its previous run returned: that run
  returned one when the session was active, and none (\<open>if (!isActive) return\<close>) when it
  was paused.
\<close>

fun step :: "BreathPattern \<Rightarrow> screenEvent \<Rightarrow> session \<Rightarrow> session option" where
  "step p (Timer i e) s =
     (if i < length (coroutines s)
      then (case coroutines s ! i of
              None \<Rightarrow> Some s
            | Some c \<Rightarrow>
                map_option
                  (\<lambda>st. let s1 = (if cycles (snd st) \<noteq> cycles (hooks s) \<and> isActive (hooks s)
                                   then clearPhaseTimeout s else s)
                        in s1\<lparr>hooks := snd st,
                              coroutines := (coroutines s1)[i := fst st],
                              phaseTimeoutRef :=
                                (if resolves e c \<and> fst st \<noteq> None then Some i
                                 else phaseTimeoutRef s1)\<rparr>)
                  (fire p e (Some c, hooks s)))
      else Some s)"
| "step p (DurationInterval now) s = Some (s\<lparr>hooks := durationTick now (hooks s)\<rparr>)"
| "step p (OrbClick now) s =
     (let s0 = s\<lparr>hooks := toggleSession now (hooks s)\<rparr>;
          s1 = (if isActive (hooks s) then clearPhaseTimeout s0 else s0)
      in map_option
           (\<lambda>st. case fst st of
                    None \<Rightarrow> s1\<lparr>hooks := snd st\<rparr>
                  | Some c \<Rightarrow>
                      s1\<lparr>hooks := snd st,
                         coroutines := coroutines s1 @ [Some c],
                         phaseTimeoutRef := Some (length (coroutines s1))\<rparr>)
           (breathingEffect p (hooks s1)))"

fun run :: "BreathPattern \<Rightarrow> screenEvent list \<Rightarrow> session \<Rightarrow> session option" where
  "run p [] s = Some s"
| "run p (e # es) s = Option.bind (step p e s) (run p es)"

text \<open>The component once \<open>SessionScreen\<close> has mounted: one slot, for the first coroutine.\<close>

definition mount :: "int \<Rightarrow> BreathPattern \<Rightarrow> session option" where
  "mount now p =
     map_option
       (\<lambda>st. \<lparr>hooks = snd st, coroutines = [fst st],
              phaseTimeoutRef = (if fst st = None then None else Some 0)\<rparr>)
       (SessionScreen now p)"

section \<open>Saved sessions in local storage (SessionAutoSave.tsx)\<close>

text \<open>
  \<open>localStorage\<close> maps string keys to string values. The values are JSON texts; a parsed
  JSON value is a \<open>json\<close>. \<open>JNum\<close> carries the (finite) value of a number.
\<close>

type_synonym localStorage = "string \<rightharpoonup> string"

datatype json =
    JNull
  | JBool bool
  | JNum rat
  | JStr string
  | JArr "json list"
  | JObj "(string \<times> json) list"

datatype jsvalue = Undefined | Value json

datatype error = SyntaxError | TypeError

text \<open>
  The built-ins of JavaScript that the code calls are parameters of the model:
  \<open>JSON.parse\<close> (\<open>Inl SyntaxError\<close> when it throws), \<open>JSON.stringify\<close>,
  \<open>Number.prototype.toString\<close> on an integer, and the conversion to a number of a
  string, an array or an object (\<open>None\<close> is \<open>NaN\<close>).
\<close>

record js =
  JSON_parse :: "string \<Rightarrow> error + json"
  JSON_stringify :: "json \<Rightarrow> string"
  Number_toString :: "int \<Rightarrow> string"
  ToNumber :: "json \<Rightarrow> rat option"

text \<open>\<open>JSON.parse\<close> throws on the empty text, whatever else it does.\<close>

definition parseJSON :: "js \<Rightarrow> string \<Rightarrow> error + json" where
  "parseJSON js s = (if s = [] then Inl SyntaxError else JSON_parse js s)"

definition savedSessionKey :: string where
  "savedSessionKey = ''aora-saved-session''"

text \<open>
  \<open>session.timestamp\<close> on a parsed value: a \<open>TypeError\<close> on \<open>null\<close>, the member of an
  object (the last one when the text repeats the key), \<open>undefined\<close> otherwise.
\<close>

fun timestampOf :: "json \<Rightarrow> error + jsvalue" where
  "timestampOf JNull = Inl TypeError"
| "timestampOf (JObj kvs) =
     Inr (case map_of (rev kvs) ''timestamp'' of None \<Rightarrow> Undefined | Some v \<Rightarrow> Value v)"
| "timestampOf (JBool b) = Inr Undefined"
| "timestampOf (JNum r) = Inr Undefined"
| "timestampOf (JStr t) = Inr Undefined"
| "timestampOf (JArr vs) = Inr Undefined"

text \<open>The operand conversion of \<open>Date.now() - session.timestamp\<close>; \<open>None\<close> is \<open>NaN\<close>.\<close>

fun toNumber :: "js \<Rightarrow> jsvalue \<Rightarrow> rat option" where
  "toNumber js Undefined = None"
| "toNumber js (Value (JNum r)) = Some r"
| "toNumber js (Value JNull) = Some 0"
| "toNumber js (Value (JBool b)) = Some (if b then 1 else 0)"
| "toNumber js (Value (JStr t)) = ToNumber js (JStr t)"
| "toNumber js (Value (JArr vs)) = ToNumber js (JArr vs)"
| "toNumber js (Value (JObj kvs)) = ToNumber js (JObj kvs)"

text \<open>
  \<open>hoursSinceLastSession = (Date.now() - session.timestamp) / (1000 * 60 * 60)\<close> and the
  test \<open>hoursSinceLastSession < 24\<close>, which is false on \<open>NaN\<close>.
\<close>

definition hoursSinceLastSession :: "int \<Rightarrow> rat \<Rightarrow> rat" where
  "hoursSinceLastSession now ts = (of_int now - ts) / (1000 * 60 * 60)"

definition savedLessThan24h :: "int \<Rightarrow> rat option \<Rightarrow> bool" where
  "savedLessThan24h now ts =
     (case ts of None \<Rightarrow> False | Some t \<Rightarrow> hoursSinceLastSession now t < 24)"

text \<open>The state hooks of the \<open>SessionAutoSave\<close> prompt.\<close>

record prompt =
  savedSession :: "json option"
  showPrompt :: bool

definition initialPrompt :: prompt where
  "initialPrompt = \<lparr>savedSession = None, showPrompt = False\<rparr>"

text \<open>\<open>clearSavedSession\<close> of the prompt: remove the item and forget the session.\<close>

definition clearSavedSession :: "prompt \<times> localStorage \<Rightarrow> prompt \<times> localStorage" where
  "clearSavedSession st =
     ((fst st)\<lparr>savedSession := None\<rparr>, (snd st)(savedSessionKey := None))"

text \<open>
  \<open>checkForSavedSession\<close>. An absent item and an empty string are falsy and nothing is
  done. Everything between \<open>try\<close> and \<open>catch\<close> that throws ends in \<open>clearSavedSession\<close>.
\<close>

definition checkForSavedSession :: "js \<Rightarrow> int \<Rightarrow> prompt \<times> localStorage \<Rightarrow> prompt \<times> localStorage" where
  "checkForSavedSession js now st =
     (case snd st savedSessionKey of
        None \<Rightarrow> st
      | Some saved \<Rightarrow>
          if saved = [] then st
          else (case parseJSON js saved of
                  Inl e \<Rightarrow> clearSavedSession st
                | Inr session \<Rightarrow>
                    (case timestampOf session of
                       Inl e \<Rightarrow> clearSavedSession st
                     | Inr v \<Rightarrow>
                         if savedLessThan24h now (toNumber js v)
                         then ((fst st)\<lparr>savedSession := Some session, showPrompt := True\<rparr>, snd st)
                         else clearSavedSession st)))"

text \<open>
  A member read \<open>v.k\<close>: a \<open>TypeError\<close> on \<open>undefined\<close> and on \<open>null\<close>, the member of an
  object, \<open>undefined\<close> on any other value (none of the names read below is a property
  of a boolean, a number, a string or an array).
\<close>

fun memberOf :: "string \<Rightarrow> jsvalue \<Rightarrow> error + jsvalue" where
  "memberOf k Undefined = Inl TypeError"
| "memberOf k (Value JNull) = Inl TypeError"
| "memberOf k (Value (JObj kvs)) =
     Inr (case map_of (rev kvs) k of None \<Rightarrow> Undefined | Some v \<Rightarrow> Value v)"
| "memberOf k (Value (JBool b)) = Inr Undefined"
| "memberOf k (Value (JNum r)) = Inr Undefined"
| "memberOf k (Value (JStr t)) = Inr Undefined"
| "memberOf k (Value (JArr vs)) = Inr Undefined"

text \<open>\<open>!v\<close> is false on a truthy value; \<open>null\<close>, \<open>false\<close>, \<open>0\<close> and the empty string are falsy.\<close>

fun truthy :: "json \<Rightarrow> bool" where
  "truthy JNull = False"
| "truthy (JBool b) = b"
| "truthy (JNum r) = (r \<noteq> 0)"
| "truthy (JStr t) = (t \<noteq> [])"
| "truthy (JArr vs) = True"
| "truthy (JObj kvs) = True"

text \<open>
  The render of the \<open>SessionAutoSave\<close> prompt, which is not inside any \<open>try\<close>:
  \<open>if (!showPrompt || !savedSession) return null\<close> (\<open>Inr None\<close>; the state is \<open>null\<close>
  or a parsed value), then
  \<open>savedSession.progress.cyclesCompleted / savedSession.progress.totalCycles\<close>. The value
  is the two operands of the division, or the error that the reads throw; the rest of
  the render is not modelled.
\<close>

definition completionPercentage :: "json \<Rightarrow> error + jsvalue \<times> jsvalue" where
  "completionPercentage session =
     (case memberOf ''progress'' (Value session) of
        Inl e \<Rightarrow> Inl e
      | Inr g \<Rightarrow>
          (case memberOf ''cyclesCompleted'' g of
             Inl e \<Rightarrow> Inl e
           | Inr a \<Rightarrow>
               (case memberOf ''progress'' (Value session) of
                  Inl e \<Rightarrow> Inl e
                | Inr g' \<Rightarrow>
                    (case memberOf ''totalCycles'' g' of
                       Inl e \<Rightarrow> Inl e
                     | Inr b \<Rightarrow> Inr (a, b)))))"

definition SessionAutoSave :: "prompt \<Rightarrow> error + (jsvalue \<times> jsvalue) option" where
  "SessionAutoSave pr =
     (case savedSession pr of
        None \<Rightarrow> Inr None
      | Some session \<Rightarrow>
          if showPrompt pr \<and> truthy session
          then (case completionPercentage session of
                  Inl e \<Rightarrow> Inl e
                | Inr ops \<Rightarrow> Inr (Some ops))
          else Inr None)"

text \<open>\<open>getSavedSession\<close> of the \<open>useSessionAutoSave\<close> hook.\<close>

definition getSavedSession :: "js \<Rightarrow> localStorage \<Rightarrow> json option \<times> localStorage" where
  "getSavedSession js store =
     (case store savedSessionKey of
        None \<Rightarrow> (None, store)
      | Some saved \<Rightarrow>
          if saved = [] then (None, store)
          else (case parseJSON js saved of
                  Inl e \<Rightarrow> (None, store(savedSessionKey := None))
                | Inr session \<Rightarrow> (Some session, store)))"

text \<open>The \<open>SavedSession\<close> interface and the JSON value that \<open>JSON.stringify\<close> is given.\<close>

record SessionProgress =
  cyclesCompleted :: nat
  progressTotalCycles :: nat
  timeElapsed :: int
  progressPhase :: phase
  phaseTimeRemaining :: rat

record SavedSession =
  savedId :: string
  timestamp :: int
  savedPattern :: BreathPattern
  savedPatternName :: "string option"
  progress :: SessionProgress
  savedDuration :: int

fun phaseName :: "phase \<Rightarrow> string" where
  "phaseName Inhale = ''inhale''"
| "phaseName Hold = ''hold''"
| "phaseName Exhale = ''exhale''"
| "phaseName Pause = ''pause''"

definition patternJson :: "BreathPattern \<Rightarrow> json" where
  "patternJson p =
     JObj [(''inhale'', JNum (inhale p)), (''hold'', JNum (hold p)),
           (''exhale'', JNum (exhale p)), (''pause'', JNum (pause p))]"

definition progressJson :: "SessionProgress \<Rightarrow> json" where
  "progressJson g =
     JObj [(''cyclesCompleted'', JNum (of_nat (cyclesCompleted g))),
           (''totalCycles'', JNum (of_nat (progressTotalCycles g))),
           (''timeElapsed'', JNum (of_int (timeElapsed g))),
           (''currentPhase'', JStr (phaseName (progressPhase g))),
           (''phaseTimeRemaining'', JNum (phaseTimeRemaining g))]"

text \<open>A member whose value is \<open>undefined\<close> is left out by \<open>JSON.stringify\<close>.\<close>

definition sessionJson :: "SavedSession \<Rightarrow> json" where
  "sessionJson s =
     JObj ([(''id'', JStr (savedId s)), (''timestamp'', JNum (of_int (timestamp s))),
            (''pattern'', patternJson (savedPattern s))]
           @ (case savedPatternName s of None \<Rightarrow> [] | Some n \<Rightarrow> [(''patternName'', JStr n)])
           @ [(''progress'', progressJson (progress s)),
              (''duration'', JNum (of_int (savedDuration s)))])"

text \<open>
  \<open>saveSession\<close> of the hook: the object it builds (both calls of \<open>Date.now()\<close> give
  \<open>now\<close>) and the write of its JSON text.
\<close>

definition sessionData :: "js \<Rightarrow> BreathPattern \<Rightarrow> string option \<Rightarrow> SessionProgress \<Rightarrow> int \<Rightarrow> int \<Rightarrow> SavedSession" where
  "sessionData js p name g d now =
     \<lparr>savedId = Number_toString js now, timestamp = now, savedPattern = p,
      savedPatternName = name, progress = g, savedDuration = d\<rparr>"

definition saveSession :: "js \<Rightarrow> BreathPattern \<Rightarrow> string option \<Rightarrow> SessionProgress \<Rightarrow> int \<Rightarrow> int \<Rightarrow> localStorage \<Rightarrow> localStorage" where
  "saveSession js p name g d now store =
     store(savedSessionKey \<mapsto> JSON_stringify js (sessionJson (sessionData js p name g d now)))"

section \<open>Saving and leaving a session (ControlPanel.tsx, SessionScreen)\<close>

text \<open>The progress object that the three save paths of the screen pass to \<open>saveSession\<close>.\<close>

definition currentProgress :: "screen \<Rightarrow> SessionProgress" where
  "currentProgress scr =
     \<lparr>cyclesCompleted = cycles scr, progressTotalCycles = totalCycles,
      timeElapsed = sessionDuration scr, progressPhase = currentPhase scr,
      phaseTimeRemaining = timeRemaining scr\<rparr>"

definition saveFromScreen :: "js \<Rightarrow> BreathPattern \<Rightarrow> string option \<Rightarrow> int \<Rightarrow> screen \<Rightarrow> localStorage \<Rightarrow> localStorage" where
  "saveFromScreen js p name now scr store =
     saveSession js p name (currentProgress scr) (sessionDuration scr) now store"

text \<open>
  The three save paths. The auto-save effect sets its 5 s interval only under
  \<open>isActive && cycles > 0\<close> and is set up again whenever one of the values it reads
  changes, so its callback runs under that condition with the current values; the
  \<open>beforeunload\<close> handler tests the same condition, the \<open>visibilitychange\<close> handler also
  \<open>document.hidden\<close>.
\<close>

datatype saveTrigger = AutoSaveInterval | BeforeUnload | VisibilityChange bool

fun saveOn :: "js \<Rightarrow> BreathPattern \<Rightarrow> string option \<Rightarrow> saveTrigger \<Rightarrow> int \<Rightarrow> screen \<Rightarrow> localStorage \<Rightarrow> localStorage" where
  "saveOn js p name AutoSaveInterval now scr store =
     (if isActive scr \<and> 0 < cycles scr then saveFromScreen js p name now scr store else store)"
| "saveOn js p name BeforeUnload now scr store =
     (if isActive scr \<and> 0 < cycles scr then saveFromScreen js p name now scr store else store)"
| "saveOn js p name (VisibilityChange hidden) now scr store =
     (if hidden \<and> isActive scr \<and> 0 < cycles scr then saveFromScreen js p name now scr store
      else store)"

text \<open>\<open>handleExit\<close>: the summary handed to \<open>onExit\<close>, and the saved session removed.\<close>

record SessionData =
  duration :: int
  sessionCycles :: nat
  sessionPattern :: BreathPattern
  sessionPatternName :: "string option"

definition handleExit :: "BreathPattern \<Rightarrow> string option \<Rightarrow> int \<Rightarrow> screen \<Rightarrow> localStorage \<Rightarrow> SessionData \<times> localStorage" where
  "handleExit p name now scr store =
     (\<lparr>duration = (now - startTimeRef scr) div 1000, sessionCycles = cycles scr,
       sessionPattern = p, sessionPatternName = name\<rparr>,
      store(savedSessionKey := None))"

section \<open>The application shell (App.tsx)\<close>

datatype AppScreen =
  Onboarding | Home | Library | Custom | Control | Session | Reflection | Progress | Settings

record Exercise =
  exId :: string
  exName :: string
  exTag :: string
  exDescription :: string
  exPattern :: BreathPattern
  exColor :: string

record app =
  currentScreen :: AppScreen
  selectedExercise :: "Exercise option"
  customPattern :: "BreathPattern option"
  showSavedSessionPrompt :: bool

text \<open>
  \<open>navigateToScreen\<close>, once its 300 ms timer has run (the loading flag and message are
  presentation and not modelled).
\<close>

definition navigateToScreen :: "AppScreen \<Rightarrow> app \<Rightarrow> app" where
  "navigateToScreen s a = a\<lparr>currentScreen := s\<rparr>"

text \<open>\<open>handleStartSession\<close>: the pattern is stored and the session screen is shown.\<close>

definition handleStartSession :: "BreathPattern \<Rightarrow> string option \<Rightarrow> app \<Rightarrow> app" where
  "handleStartSession pattern patternName a =
     navigateToScreen Session (a\<lparr>customPattern := Some pattern\<rparr>)"

text \<open>
  \<open>handleResumeSession\<close> of the application: it reads the pattern and the pattern name of
  the saved session, and nothing else. A pattern name that is absent or empty is falsy.
\<close>

definition handleResumeSession :: "SavedSession \<Rightarrow> app \<Rightarrow> app" where
  "handleResumeSession saved a =
     navigateToScreen Session
       (a\<lparr>customPattern := Some (savedPattern saved),
          selectedExercise :=
            (case savedPatternName saved of
               None \<Rightarrow> None
             | Some n \<Rightarrow>
                 if n = [] then None
                 else Some \<lparr>exId = ''saved'', exName = n, exTag = ''Resumed'',
                            exDescription = ''Continuing your previous session'',
                            exPattern = savedPattern saved, exColor = ''#2E3AF0''\<rparr>),
          showSavedSessionPrompt := False\<rparr>)"

text \<open>
  The session screen as the application renders it:
  \<open>currentScreen === 'session' && customPattern && <SessionScreen pattern={customPattern} .../>\<close>.
  The component receives the pattern, the pattern name and \<open>onExit\<close>, and mounts at \<open>now\<close>.
  There is no value when the screen is not rendered, and none when it is rendered and
  its effect never comes to a pending phase.
\<close>

definition renderSessionScreen :: "int \<Rightarrow> app \<Rightarrow> (countdown option \<times> screen) option" where
  "renderSessionScreen now a =
     (if currentScreen a = Session
      then (case customPattern a of None \<Rightarrow> None | Some p \<Rightarrow> SessionScreen now p)
      else None)"

text \<open>
  The check of the application one second after start: it raises the prompt for a saved
  session younger than 24 hours and removes nothing.
\<close>

definition appSavedSessionCheck :: "js \<Rightarrow> int \<Rightarrow> localStorage \<Rightarrow> app \<Rightarrow> app" where
  "appSavedSessionCheck js now store a =
     (case store savedSessionKey of
        None \<Rightarrow> a
      | Some saved \<Rightarrow>
          if saved = [] then a
          else (case parseJSON js saved of
                  Inl e \<Rightarrow> a
                | Inr session \<Rightarrow>
                    (case timestampOf session of
                       Inl e \<Rightarrow> a
                     | Inr v \<Rightarrow>
                         if savedLessThan24h now (toNumber js v)
                         then a\<lparr>showSavedSessionPrompt := True\<rparr>
                         else a)))"

section \<open>Sample inputs\<close>

text \<open>
  The pattern of \<open>handleCreateCustom\<close>, 4-4-4-4, and a pattern without pause, 4-7-8-0.
\<close>

definition boxPattern :: BreathPattern where
  "boxPattern = \<lparr>inhale = 4, hold = 4, exhale = 4, pause = 4\<rparr>"

definition relaxPattern :: BreathPattern where
  "relaxPattern = \<lparr>inhale = 4, hold = 7, exhale = 8, pause = 0\<rparr>"

text \<open>
  Two patterns that the sliders of the control panel cannot produce, a session at the
  last tick of its tenth cycle, a session in the middle of its fourth cycle, and the
  application on its home screen.
\<close>

definition zeroPattern :: BreathPattern where
  "zeroPattern = \<lparr>inhale = 0, hold = 0, exhale = 0, pause = 0\<rparr>"

definition negativePattern :: BreathPattern where
  "negativePattern = \<lparr>inhale = - 1, hold = 4, exhale = 4, pause = 4\<rparr>"

definition tenthCycleEnding :: screen where
  "tenthCycleEnding =
     \<lparr>currentPhase = Pause, isActive = True, cycles = 9, timeRemaining = 1 / 10,
      sessionDuration = 159, startTimeRef = 0\<rparr>"

definition midSession :: screen where
  "midSession =
     \<lparr>currentPhase = Exhale, isActive = True, cycles = 3, timeRemaining = 5 / 2,
      sessionDuration = 57, startTimeRef = 0\<rparr>"

definition homeApp :: app where
  "homeApp =
     \<lparr>currentScreen = Home, selectedExercise = None, customPattern = None,
      showSavedSessionPrompt = True\<rparr>"

text \<open>The screen state of a 4-4-4-4 session that has just mounted at time 0.\<close>

definition boxStart :: screen where
  "boxStart =
     \<lparr>currentPhase = Inhale, isActive = True, cycles = 0, timeRemaining = 4,
      sessionDuration = 0, startTimeRef = 0\<rparr>"

text \<open>
  Two sequences of events of a 4-4-4-4 session mounted at time 0. In the first the
  countdown of the first coroutine ticks at 100, ..., 500 ms, the orb is clicked at
  550 ms (pause), the countdown ticks at 600 and 700 ms, and the orb is clicked at
  750 ms (resume). The second is the 16 s that follow: the countdown of the first
  coroutine (slot 0) ticks at 800, 900, ..., 16700 ms, that of the coroutine started by
  the resume (slot 1) at 850, 950, ..., 16750 ms, and the duration tracker at 1000,
  2000, ..., 16000 ms.
\<close>

definition pauseAndResume :: "screenEvent list" where
  "pauseAndResume =
     replicate 5 (Timer 0 CountdownInterval) @ [OrbClick 550] @
     replicate 2 (Timer 0 CountdownInterval) @ [OrbClick 750]"

definition bothCountdowns :: "screenEvent list" where
  "bothCountdowns = [Timer 0 CountdownInterval, Timer 1 CountdownInterval]"

definition secondUpTo :: "int \<Rightarrow> screenEvent list" where
  "secondUpTo now =
     concat (replicate 9 bothCountdowns) @
     [Timer 0 CountdownInterval, DurationInterval now, Timer 1 CountdownInterval]"

definition sixteenSecondsOfTicks :: "screenEvent list" where
  "sixteenSecondsOfTicks =
     concat (replicate 2 bothCountdowns) @
     [Timer 0 CountdownInterval, DurationInterval 1000, Timer 1 CountdownInterval] @
     concat (map secondUpTo
       [2000, 3000, 4000, 5000, 6000, 7000, 8000, 9000, 10000, 11000, 12000, 13000, 14000,
        15000, 16000]) @
     concat (replicate 7 bothCountdowns)"

text \<open>
  A saved session and stand-ins for the built-ins: \<open>JSON.parse\<close> knows the text of that
  saved session and the text of an object with a timestamp and nothing else, and throws
  on every other text.
\<close>

definition sampleSnapshot :: SavedSession where
  "sampleSnapshot =
     \<lparr>savedId = ''1000'', timestamp = 1000, savedPattern = boxPattern,
      savedPatternName = Some ''Box'',
      progress = \<lparr>cyclesCompleted = 3, progressTotalCycles = 10, timeElapsed = 57,
                  progressPhase = Exhale, phaseTimeRemaining = 5 / 2\<rparr>,
      savedDuration = 57\<rparr>"

definition sampleJs :: js where
  "sampleJs =
     \<lparr>JSON_parse = (\<lambda>s. if s = ''snapshot'' then Inr (sessionJson sampleSnapshot)
                       else if s = ''stamp'' then Inr (JObj [(''timestamp'', JNum 1000)])
                       else Inl SyntaxError),
      JSON_stringify = (\<lambda>j. ''snapshot''),
      Number_toString = (\<lambda>n. ''1000''),
      ToNumber = (\<lambda>j. None)\<rparr>"

section \<open>The phase sequencer\<close>

lemma runCycleFrom_enters_nonzero:
  "runCycleFrom p phs scr = (Some c, scr') \<Longrightarrow>
     patternAt p (cphase c) \<noteq> 0 \<and> currentPhase scr' = cphase c \<and> isActive scr' = isActive scr"
proof (induction phs arbitrary: scr)
  case Nil
  then show ?case by simp
next
  case (Cons ph phs)
  show ?case
  proof (cases "patternAt p ph = 0")
    case True
    with Cons.prems have "runCycleFrom p phs scr = (Some c, scr')"
      by (simp add: runPhase_def)
    from Cons.IH [OF this] show ?thesis by simp
  next
    case False
    with Cons.prems show ?thesis
      by (auto simp: runPhase_def)
  qed
qed

lemma runCycleFrom_finished:
  "runCycleFrom p phs scr = (None, scr') \<Longrightarrow>
     scr' = scr\<lparr>cycles := cycles scr + 1\<rparr> \<and> (\<forall>ph \<in> set phs. patternAt p ph = 0)"
proof (induction phs arbitrary: scr)
  case Nil
  then show ?case by simp
next
  case (Cons ph phs)
  show ?case
  proof (cases "patternAt p ph = 0")
    case True
    with Cons.prems have "runCycleFrom p phs scr = (None, scr')"
      by (simp add: runPhase_def)
    from Cons.IH [OF this] True show ?thesis by simp
  next
    case False
    with Cons.prems show ?thesis
      by (auto simp: runPhase_def)
  qed
qed

lemma runCycleFrom_all_zero:
  "\<forall>ph \<in> set phs. patternAt p ph = 0 \<Longrightarrow>
     runCycleFrom p phs scr = (None, scr\<lparr>cycles := cycles scr + 1\<rparr>)"
  by (induction phs) (simp_all add: runPhase_def)

lemma runCycleFrom_start:
  "runCycleFrom p phs scr = (Some c, scr') \<Longrightarrow>
     scr' = scr\<lparr>currentPhase := cphase c, timeRemaining := patternAt p (cphase c)\<rparr> \<and>
     c = \<lparr>cphase = cphase c, remaining = patternAt p (cphase c), timeoutArmed = True\<rparr> \<and>
     patternAt p (cphase c) \<noteq> 0"
proof (induction phs arbitrary: scr)
  case Nil
  then show ?case by simp
next
  case (Cons ph phs)
  show ?case
  proof (cases "patternAt p ph = 0")
    case True
    with Cons.prems have "runCycleFrom p phs scr = (Some c, scr')"
      by (simp add: runPhase_def)
    from Cons.IH [OF this] show ?thesis .
  next
    case False
    with Cons.prems show ?thesis
      by (auto simp: runPhase_def)
  qed
qed

lemma runCycle_enters:
  assumes "patternAt p ph \<noteq> 0"
  shows "\<exists>c scr'. runCycle p scr = (Some c, scr')"
proof (cases "runCycle p scr")
  case (Pair co scr')
  show ?thesis
  proof (cases co)
    case None
    with Pair have "\<forall>ph \<in> set [Inhale, Hold, Exhale, Pause]. patternAt p ph = 0"
      using runCycleFrom_finished [of p "[Inhale, Hold, Exhale, Pause]" scr scr']
      by (simp add: runCycle_def)
    with assms show ?thesis by (cases ph) auto
  next
    case (Some c)
    with Pair show ?thesis by simp
  qed
qed

lemma breathingEffect_paused: "\<not> isActive scr \<Longrightarrow> breathingEffect p scr = Some (None, scr)"
  by (subst breathingEffect.simps) simp

lemma breathingEffect_first_run:
  assumes "isActive scr" and "runCycle p scr = (Some c, scr')"
  shows "breathingEffect p scr = Some (Some c, scr')"
  using assms by (subst breathingEffect.simps) simp

lemma breathingEffect_entered:
  assumes "isActive scr" "patternAt p ph \<noteq> 0"
  shows "\<exists>st. breathingEffect p scr = Some st \<and> phaseEntered p st \<and> isActive (snd st)"
proof -
  from runCycle_enters [OF assms(2)] obtain c scr' where r: "runCycle p scr = (Some c, scr')"
    by blast
  then have "runCycleFrom p [Inhale, Hold, Exhale, Pause] scr = (Some c, scr')"
    by (simp add: runCycle_def)
  from runCycleFrom_enters_nonzero [OF this] breathingEffect_first_run [OF assms(1) r] assms(1)
  show ?thesis
    by (simp add: phaseEntered_def)
qed

text \<open>
  For the pattern of four zeros every run of the effect on an active session counts a
  cycle and leaves no phase pending, so that the effect runs again: the runs never end.
\<close>

lemma breathingEffect_all_zero_aux:
  assumes "breathingEffect p scr = Some st"
  shows "(\<forall>ph. patternAt p ph = 0) \<longrightarrow> \<not> isActive scr"
proof (rule breathingEffect.raw_induct
    [where P = "\<lambda>p scr st. (\<forall>ph. patternAt p ph = 0) \<longrightarrow> \<not> isActive scr", OF _ assms])
  fix be :: "BreathPattern \<Rightarrow> screen \<Rightarrow> (countdown option \<times> screen) option"
  fix p scr st
  assume IH: "\<And>p scr st. be p scr = Some st \<Longrightarrow> (\<forall>ph. patternAt p ph = 0) \<longrightarrow> \<not> isActive scr"
    and eq: "(if \<not> isActive scr then Some (None, scr)
      else (case runCycle p scr of
              (Some c, scr') \<Rightarrow> Some (Some c, scr')
            | (None, scr') \<Rightarrow> be p scr')) = Some st"
  show "(\<forall>ph. patternAt p ph = 0) \<longrightarrow> \<not> isActive scr"
  proof (intro impI notI)
    assume zero: "\<forall>ph. patternAt p ph = 0" and act: "isActive scr"
    then have "runCycle p scr = (None, scr\<lparr>cycles := cycles scr + 1\<rparr>)"
      unfolding runCycle_def by (intro runCycleFrom_all_zero) simp
    with eq act have "be p (scr\<lparr>cycles := cycles scr + 1\<rparr>) = Some st"
      by simp
    from IH [OF this] zero act show False by simp
  qed
qed

lemma breathingEffect_all_zero:
  assumes "\<forall>ph. patternAt p ph = 0" and "isActive scr"
  shows "breathingEffect p scr = None"
  using breathingEffect_all_zero_aux [of p scr] assms by (cases "breathingEffect p scr") auto

lemma zero_pattern_never_settles: "SessionScreen now zeroPattern = None"
proof -
  have "patternAt zeroPattern ph = 0" for ph
    by (cases ph) (simp_all add: zeroPattern_def)
  then have "\<forall>ph. patternAt zeroPattern ph = 0"
    by simp
  moreover have "isActive (initialState now)"
    by (simp add: initialState_def)
  ultimately show ?thesis
    unfolding SessionScreen_def by (rule breathingEffect_all_zero)
qed

lemma resolvePhase_entered:
  assumes "isActive scr" "patternAt p ph \<noteq> 0"
  shows "\<exists>st. resolvePhase p c scr = Some st \<and> phaseEntered p st \<and> isActive (snd st)"
proof (cases "runCycleFrom p (phasesAfter (cphase c)) scr")
  case (Pair co scr')
  show ?thesis
  proof (cases co)
    case None
    with Pair have "scr' = scr\<lparr>cycles := cycles scr + 1\<rparr>"
      using runCycleFrom_finished by blast
    with assms(1) have "isActive scr'" by simp
    from breathingEffect_entered [OF this assms(2)] Pair None show ?thesis
      by (simp add: resolvePhase_def continueCycle_def)
  next
    case (Some c')
    with Pair runCycleFrom_enters_nonzero [of p "phasesAfter (cphase c)" scr c' scr'] assms(1)
    show ?thesis
      by (simp add: resolvePhase_def continueCycle_def phaseEntered_def)
  qed
qed

lemma fire_entered:
  assumes "phaseEntered p st" "isActive (snd st)"
  shows "\<exists>st'. fire p e st = Some st' \<and> phaseEntered p st' \<and> isActive (snd st')"
proof -
  from assms(1) obtain c scr where st: "st = (Some c, scr)"
    and nz: "patternAt p (cphase c) \<noteq> 0" and cur: "currentPhase scr = cphase c"
    by (cases st) (auto simp: phaseEntered_def split: option.splits)
  from assms(2) st have act: "isActive scr" by simp
  show ?thesis
  proof (cases e)
    case CountdownInterval
    define scr1 where "scr1 = scr\<lparr>timeRemaining := max 0 (remaining c - 1 / 10)\<rparr>"
    have act': "isActive scr1" and cur': "currentPhase scr1 = cphase c"
      using act cur by (simp_all add: scr1_def)
    have tick: "fire p e st =
        (if remaining c - 1 / 10 \<le> 0 then resolvePhase p c scr1
         else Some (Some (c\<lparr>remaining := remaining c - 1 / 10\<rparr>), scr1))"
      by (simp only: st CountdownInterval fire.simps countdownTick_def Let_def scr1_def)
    show ?thesis
    proof (cases "remaining c - 1 / 10 \<le> 0")
      case True
      with tick resolvePhase_entered [OF act' nz, of c] show ?thesis by simp
    next
      case False
      with tick nz cur' act' show ?thesis by (simp add: phaseEntered_def)
    qed
  next
    case PhaseTimeout
    show ?thesis
      using resolvePhase_entered [OF act nz, of c] nz cur act
      by (simp add: st PhaseTimeout phaseTimeout_def phaseEntered_def)
  qed
qed

lemma fireAll_entered:
  "phaseEntered p st \<Longrightarrow> isActive (snd st) \<Longrightarrow>
     \<exists>st'. fireAll p es st = Some st' \<and> phaseEntered p st' \<and> isActive (snd st')"
proof (induction es arbitrary: st)
  case Nil
  then show ?case by simp
next
  case (Cons e es)
  from fire_entered [OF Cons.prems, of e] obtain st1 where
    "fire p e st = Some st1" "phaseEntered p st1" "isActive (snd st1)"
    by blast
  with Cons.IH [of st1] show ?case by simp
qed

lemma continueCycle_Cons:
  "continueCycle p (ph # phs) scr =
     (if patternAt p ph = 0 then continueCycle p phs scr
      else Some (Some \<lparr>cphase = ph, remaining = patternAt p ph, timeoutArmed = True\<rparr>,
            scr\<lparr>currentPhase := ph, timeRemaining := patternAt p ph\<rparr>))"
  by (simp add: continueCycle_def runPhase_def)

lemma continueCycle_Nil:
  "continueCycle p [] scr = breathingEffect p (scr\<lparr>cycles := cycles scr + 1\<rparr>)"
  by (simp add: continueCycle_def)

lemma breathingEffect_inhale:
  assumes "isActive scr" "inhale p \<noteq> 0"
  shows "breathingEffect p scr =
     Some (Some \<lparr>cphase = Inhale, remaining = inhale p, timeoutArmed = True\<rparr>,
      scr\<lparr>currentPhase := Inhale, timeRemaining := inhale p\<rparr>)"
  using assms
  by (intro breathingEffect_first_run) (simp_all add: runCycle_def runPhase_def)

lemma cycle_wraps_to_inhale:
  assumes "isActive scr" "inhale p \<noteq> 0" "\<forall>ph \<in> set (phasesAfter (cphase c)). patternAt p ph = 0"
  shows "resolvePhase p c scr =
     Some (Some \<lparr>cphase = Inhale, remaining = inhale p, timeoutArmed = True\<rparr>,
      scr\<lparr>currentPhase := Inhale, cycles := cycles scr + 1, timeRemaining := inhale p\<rparr>)"
proof -
  have "continueCycle p phs scr = breathingEffect p (scr\<lparr>cycles := cycles scr + 1\<rparr>)"
    if "\<forall>ph \<in> set phs. patternAt p ph = 0" for phs
    using that by (induction phs) (simp_all add: continueCycle_Nil continueCycle_Cons)
  from this [OF assms(3)] assms(1,2) show ?thesis
    by (simp add: resolvePhase_def breathingEffect_inhale)
qed

lemma SessionScreen_inhale:
  assumes "inhale p \<noteq> 0"
  shows "SessionScreen now p =
     Some (Some \<lparr>cphase = Inhale, remaining = inhale p, timeoutArmed = True\<rparr>,
           \<lparr>currentPhase = Inhale, isActive = True, cycles = 0, timeRemaining = inhale p,
            sessionDuration = 0, startTimeRef = now\<rparr>)"
  using assms by (simp add: SessionScreen_def initialState_def breathingEffect_inhale)

section \<open>The events of the mounted component\<close>

lemma run_append: "run p (es @ es') s = Option.bind (run p es s) (run p es')"
  by (induction es arbitrary: s) (simp_all split: Option.bind_split)

lemma hooks_clearPhaseTimeout: "hooks (clearPhaseTimeout s) = hooks s"
  by (simp add: clearPhaseTimeout_def split: option.splits)

text \<open>
  A click on an active session pauses it: the timeout in \<open>phaseTimeoutRef\<close> is cleared
  and nothing is started. A click on a paused session resumes it: the effect starts a
  new cycle at inhale.
\<close>

lemma click_pauses:
  assumes "isActive (hooks s)"
  shows "step p (OrbClick t) s = Some (clearPhaseTimeout (s\<lparr>hooks := (hooks s)\<lparr>isActive := False\<rparr>\<rparr>))"
proof -
  have t: "toggleSession t (hooks s) = (hooks s)\<lparr>isActive := False\<rparr>"
    using assms by (simp add: toggleSession_def)
  have "breathingEffect p (hooks (clearPhaseTimeout (s\<lparr>hooks := (hooks s)\<lparr>isActive := False\<rparr>\<rparr>)))
      = Some (None, hooks (clearPhaseTimeout (s\<lparr>hooks := (hooks s)\<lparr>isActive := False\<rparr>\<rparr>)))"
    by (rule breathingEffect_paused) (simp add: hooks_clearPhaseTimeout)
  with assms show ?thesis
    by (simp add: t Let_def)
qed

lemma click_resumes:
  assumes "\<not> isActive (hooks s)" and "inhale p \<noteq> 0"
  shows "\<exists>s'. step p (OrbClick t) s = Some s' \<and>
     hooks s' = (hooks s)\<lparr>isActive := True, startTimeRef := t - sessionDuration (hooks s) * 1000,
                           currentPhase := Inhale, timeRemaining := inhale p\<rparr>"
proof -
  define s1 where "s1 = s\<lparr>hooks := toggleSession t (hooks s)\<rparr>"
  have h: "hooks s1 = (hooks s)\<lparr>isActive := True,
      startTimeRef := t - sessionDuration (hooks s) * 1000\<rparr>"
    using assms(1) by (simp add: s1_def toggleSession_def)
  then have "isActive (hooks s1)" by simp
  from breathingEffect_inhale [OF this assms(2)] assms(1)
  have "step p (OrbClick t) s =
     Some (s1\<lparr>hooks := (hooks s1)\<lparr>currentPhase := Inhale, timeRemaining := inhale p\<rparr>,
              coroutines := coroutines s1 @
                [Some \<lparr>cphase = Inhale, remaining = inhale p, timeoutArmed = True\<rparr>],
              phaseTimeoutRef := Some (length (coroutines s1))\<rparr>)"
    by (simp add: s1_def Let_def)
  with h show ?thesis by simp
qed

text \<open>
  The 4-4-4-4 session mounted at time 0, and its events evaluated.
\<close>

lemma mount_box:
  "mount 0 boxPattern =
     Some \<lparr>hooks = boxStart,
           coroutines = [Some \<lparr>cphase = Inhale, remaining = 4, timeoutArmed = True\<rparr>],
           phaseTimeoutRef = Some 0\<rparr>"
  by (simp add: mount_def SessionScreen_inhale boxPattern_def boxStart_def)

lemmas run_simps =
  countdownTick_def resolvePhase_def continueCycle_Cons continueCycle_Nil
  breathingEffect_inhale breathingEffect_paused clearPhaseTimeout_def effectCleanup_def
  toggleSession_def durationTick_def Let_def boxPattern_def boxStart_def

lemma box_pauseAndResume:
  "run boxPattern pauseAndResume
     \<lparr>hooks = boxStart,
      coroutines = [Some \<lparr>cphase = Inhale, remaining = 4, timeoutArmed = True\<rparr>],
      phaseTimeoutRef = Some 0\<rparr> =
     Some \<lparr>hooks = \<lparr>currentPhase = Inhale, isActive = True, cycles = 0, timeRemaining = 4,
                    sessionDuration = 0, startTimeRef = 750\<rparr>,
           coroutines = [Some \<lparr>cphase = Inhale, remaining = 33 / 10, timeoutArmed = False\<rparr>,
                         Some \<lparr>cphase = Inhale, remaining = 4, timeoutArmed = True\<rparr>],
           phaseTimeoutRef = Some 1\<rparr>"
  by (simp add: pauseAndResume_def eval_nat_numeral run_simps)

lemma box_sixteenSecondsOfTicks:
  "run boxPattern sixteenSecondsOfTicks
     \<lparr>hooks = \<lparr>currentPhase = Inhale, isActive = True, cycles = 0, timeRemaining = 4,
                    sessionDuration = 0, startTimeRef = 750\<rparr>,
           coroutines = [Some \<lparr>cphase = Inhale, remaining = 33 / 10, timeoutArmed = False\<rparr>,
                         Some \<lparr>cphase = Inhale, remaining = 4, timeoutArmed = True\<rparr>],
           phaseTimeoutRef = Some 1\<rparr> =
     Some \<lparr>hooks = \<lparr>currentPhase = Inhale, isActive = True, cycles = 2, timeRemaining = 4,
                    sessionDuration = 15, startTimeRef = 750\<rparr>,
           coroutines = [Some \<lparr>cphase = Inhale, remaining = 33 / 10, timeoutArmed = False\<rparr>,
                         Some \<lparr>cphase = Inhale, remaining = 4, timeoutArmed = True\<rparr>],
           phaseTimeoutRef = Some 1\<rparr>"
  by (simp add: sixteenSecondsOfTicks_def secondUpTo_def bothCountdowns_def eval_nat_numeral
      run_simps)

lemma box_never_paused:
  "run boxPattern (replicate 160 (Timer 0 CountdownInterval))
     \<lparr>hooks = boxStart,
      coroutines = [Some \<lparr>cphase = Inhale, remaining = 4, timeoutArmed = True\<rparr>],
      phaseTimeoutRef = Some 0\<rparr> =
     Some \<lparr>hooks = \<lparr>currentPhase = Inhale, isActive = True, cycles = 1, timeRemaining = 4,
                    sessionDuration = 0, startTimeRef = 0\<rparr>,
           coroutines = [Some \<lparr>cphase = Inhale, remaining = 4, timeoutArmed = True\<rparr>],
           phaseTimeoutRef = Some 0\<rparr>"
  by (simp add: eval_nat_numeral run_simps)

section \<open>Starting, running and pausing a session\<close>

text \<open>
  A session is created for a pattern with a negative duration: no error is raised and
  the countdown starts at the negative value.
\<close>

theorem invalid_pattern_starts_session:
  "renderSessionScreen 0 (handleStartSession negativePattern None homeApp) =
     Some (Some \<lparr>cphase = Inhale, remaining = - 1, timeoutArmed = True\<rparr>,
           \<lparr>currentPhase = Inhale, isActive = True, cycles = 0, timeRemaining = - 1,
            sessionDuration = 0, startTimeRef = 0\<rparr>)"
  by (simp add: renderSessionScreen_def handleStartSession_def navigateToScreen_def homeApp_def
      SessionScreen_inhale negativePattern_def)

text \<open>
  Claim C3, as amended. Starting a session validates nothing. For every pattern whose
  inhale duration is not 0, a negative one included, the session starts active in phase
  inhale with the inhale duration remaining, no elapsed time and no completed cycle.
  For every pattern with some duration that is not 0 the session starts active in a
  phase whose duration is not 0, with that duration remaining, no elapsed time and no
  completed cycle.
\<close>

theorem start_begins_at_inhale:
  assumes "inhale p \<noteq> 0"
  shows "renderSessionScreen now (handleStartSession p name a) =
     Some (Some \<lparr>cphase = Inhale, remaining = inhale p, timeoutArmed = True\<rparr>,
           \<lparr>currentPhase = Inhale, isActive = True, cycles = 0, timeRemaining = inhale p,
            sessionDuration = 0, startTimeRef = now\<rparr>) \<and>
     (patternAt p' ph \<noteq> 0 \<longrightarrow>
        (\<exists>ph'. patternAt p' ph' \<noteq> 0 \<and>
           renderSessionScreen now (handleStartSession p' name a) =
             Some (Some \<lparr>cphase = ph', remaining = patternAt p' ph', timeoutArmed = True\<rparr>,
                   \<lparr>currentPhase = ph', isActive = True, cycles = 0,
                    timeRemaining = patternAt p' ph', sessionDuration = 0, startTimeRef = now\<rparr>)))"
proof (intro conjI impI)
  from assms show "renderSessionScreen now (handleStartSession p name a) =
     Some (Some \<lparr>cphase = Inhale, remaining = inhale p, timeoutArmed = True\<rparr>,
           \<lparr>currentPhase = Inhale, isActive = True, cycles = 0, timeRemaining = inhale p,
            sessionDuration = 0, startTimeRef = now\<rparr>)"
    by (simp add: renderSessionScreen_def handleStartSession_def navigateToScreen_def
        SessionScreen_inhale)
next
  assume nz: "patternAt p' ph \<noteq> 0"
  from runCycle_enters [OF nz, of "initialState now"] obtain c scr'
    where r: "runCycle p' (initialState now) = (Some c, scr')"
    by blast
  then have "runCycleFrom p' [Inhale, Hold, Exhale, Pause] (initialState now) = (Some c, scr')"
    by (simp add: runCycle_def)
  from runCycleFrom_start [OF this]
  have s: "scr' = (initialState now)\<lparr>currentPhase := cphase c,
        timeRemaining := patternAt p' (cphase c)\<rparr>"
    and c: "c = \<lparr>cphase = cphase c, remaining = patternAt p' (cphase c), timeoutArmed = True\<rparr>"
    and n: "patternAt p' (cphase c) \<noteq> 0"
    by simp_all
  have "isActive (initialState now)" by (simp add: initialState_def)
  from breathingEffect_first_run [OF this r]
  have "SessionScreen now p' = Some (Some c, scr')"
    by (simp add: SessionScreen_def)
  then have "renderSessionScreen now (handleStartSession p' name a) =
             Some (Some \<lparr>cphase = cphase c, remaining = patternAt p' (cphase c), timeoutArmed = True\<rparr>,
                   \<lparr>currentPhase = cphase c, isActive = True, cycles = 0,
                    timeRemaining = patternAt p' (cphase c), sessionDuration = 0,
                    startTimeRef = now\<rparr>)"
    using c s
    by (simp add: renderSessionScreen_def handleStartSession_def navigateToScreen_def
        initialState_def)
  with n show "\<exists>ph'. patternAt p' ph' \<noteq> 0 \<and>
           renderSessionScreen now (handleStartSession p' name a) =
             Some (Some \<lparr>cphase = ph', remaining = patternAt p' ph', timeoutArmed = True\<rparr>,
                   \<lparr>currentPhase = ph', isActive = True, cycles = 0,
                    timeRemaining = patternAt p' ph', sessionDuration = 0, startTimeRef = now\<rparr>)"
    by blast
qed

theorem start_begins_at_inhale_witness:
  "renderSessionScreen 0 (handleStartSession boxPattern None homeApp) =
     Some (Some \<lparr>cphase = Inhale, remaining = 4, timeoutArmed = True\<rparr>,
           \<lparr>currentPhase = Inhale, isActive = True, cycles = 0, timeRemaining = 4,
            sessionDuration = 0, startTimeRef = 0\<rparr>) \<and>
   (\<exists>ph'. patternAt relaxPattern ph' \<noteq> 0 \<and>
      renderSessionScreen 0 (handleStartSession relaxPattern None homeApp) =
        Some (Some \<lparr>cphase = ph', remaining = patternAt relaxPattern ph', timeoutArmed = True\<rparr>,
              \<lparr>currentPhase = ph', isActive = True, cycles = 0,
               timeRemaining = patternAt relaxPattern ph', sessionDuration = 0,
               startTimeRef = 0\<rparr>))"
proof -
  have a: "inhale boxPattern \<noteq> 0" and b: "patternAt relaxPattern Hold \<noteq> 0"
    by (simp_all add: boxPattern_def relaxPattern_def)
  note t = start_begins_at_inhale [OF a, where now = 0 and name = None and a = homeApp
      and p' = relaxPattern and ph = Hold]
  from t [THEN conjunct1] t [THEN conjunct2, rule_format, OF b] show ?thesis
    by (simp add: boxPattern_def)
qed

text \<open>
  The tick that completes the tenth cycle of a 4-4-4-4 session leaves the session active
  at the start of inhale, and the next tick advances the countdown.
\<close>

theorem session_continues_past_target:
  "countdownTick boxPattern \<lparr>cphase = Pause, remaining = 1 / 10, timeoutArmed = True\<rparr>
       tenthCycleEnding =
     Some (Some \<lparr>cphase = Inhale, remaining = 4, timeoutArmed = True\<rparr>,
      \<lparr>currentPhase = Inhale, isActive = True, cycles = 10, timeRemaining = 4,
       sessionDuration = 159, startTimeRef = 0\<rparr>) \<and>
   totalCycles = 10 \<and>
   Option.bind
       (countdownTick boxPattern \<lparr>cphase = Pause, remaining = 1 / 10, timeoutArmed = True\<rparr>
          tenthCycleEnding)
       (fire boxPattern CountdownInterval) =
     Some (Some \<lparr>cphase = Inhale, remaining = 39 / 10, timeoutArmed = True\<rparr>,
      \<lparr>currentPhase = Inhale, isActive = True, cycles = 10, timeRemaining = 39 / 10,
       sessionDuration = 159, startTimeRef = 0\<rparr>)"
  by (simp add: countdownTick_def resolvePhase_def continueCycle_def breathingEffect_inhale
      boxPattern_def tenthCycleEnding_def totalCycles_def Let_def)

text \<open>
  Claim C2, as amended. There is no automatic completion. For an active session whose
  pattern has a non-zero phase, after any sequence of timer callbacks the session is
  still active and a phase is pending, whatever \<open>cycles\<close> is; and the end of the pause
  phase counts the cycle and starts the next inhale, with no comparison against
  \<open>totalCycles\<close>.
\<close>

theorem no_automatic_completion:
  assumes "isActive scr" and "patternAt p ph \<noteq> 0"
  shows "(\<forall>es. \<exists>st. Option.bind (breathingEffect p scr) (fireAll p es) = Some st \<and>
            isActive (snd st) \<and> fst st \<noteq> None) \<and>
    (inhale p \<noteq> 0 \<and> cphase c = Pause \<longrightarrow>
       resolvePhase p c scr =
         Some (Some \<lparr>cphase = Inhale, remaining = inhale p, timeoutArmed = True\<rparr>,
          scr\<lparr>currentPhase := Inhale, cycles := cycles scr + 1, timeRemaining := inhale p\<rparr>))"
proof (intro conjI allI impI)
  fix es
  from breathingEffect_entered [OF assms] obtain st0 where
    "breathingEffect p scr = Some st0" "phaseEntered p st0" "isActive (snd st0)"
    by blast
  moreover from fireAll_entered [OF this(2,3), of es] obtain st where
    "fireAll p es st0 = Some st" "phaseEntered p st" "isActive (snd st)"
    by blast
  ultimately show "\<exists>st. Option.bind (breathingEffect p scr) (fireAll p es) = Some st \<and>
            isActive (snd st) \<and> fst st \<noteq> None"
    by (auto simp: phaseEntered_def split: option.splits)
next
  assume "inhale p \<noteq> 0 \<and> cphase c = Pause"
  with cycle_wraps_to_inhale [OF assms(1), of p c]
  show "resolvePhase p c scr =
         Some (Some \<lparr>cphase = Inhale, remaining = inhale p, timeoutArmed = True\<rparr>,
          scr\<lparr>currentPhase := Inhale, cycles := cycles scr + 1, timeRemaining := inhale p\<rparr>)"
    by simp
qed

theorem no_automatic_completion_witness:
  "(\<exists>st. Option.bind (breathingEffect boxPattern (tenthCycleEnding\<lparr>cycles := 10\<rparr>))
            (fireAll boxPattern [PhaseTimeout, PhaseTimeout, PhaseTimeout, PhaseTimeout])
          = Some st \<and> isActive (snd st) \<and> fst st \<noteq> None) \<and>
   resolvePhase boxPattern \<lparr>cphase = Pause, remaining = 1 / 10, timeoutArmed = True\<rparr>
       (tenthCycleEnding\<lparr>cycles := 10\<rparr>) =
     Some (Some \<lparr>cphase = Inhale, remaining = 4, timeoutArmed = True\<rparr>,
      \<lparr>currentPhase = Inhale, isActive = True, cycles = 11, timeRemaining = 4,
       sessionDuration = 159, startTimeRef = 0\<rparr>)"
proof -
  have act: "isActive (tenthCycleEnding\<lparr>cycles := 10\<rparr>)"
    and nz: "patternAt boxPattern Inhale \<noteq> 0"
    by (simp_all add: tenthCycleEnding_def boxPattern_def)
  note t = no_automatic_completion [OF act nz,
      of "\<lparr>cphase = Pause, remaining = 1 / 10, timeoutArmed = True\<rparr>"]
  from t have "\<exists>st. Option.bind (breathingEffect boxPattern (tenthCycleEnding\<lparr>cycles := 10\<rparr>))
            (fireAll boxPattern [PhaseTimeout, PhaseTimeout, PhaseTimeout, PhaseTimeout])
          = Some st \<and> isActive (snd st) \<and> fst st \<noteq> None"
    by blast
  moreover from t have "resolvePhase boxPattern
       \<lparr>cphase = Pause, remaining = 1 / 10, timeoutArmed = True\<rparr>
       (tenthCycleEnding\<lparr>cycles := 10\<rparr>) =
     Some (Some \<lparr>cphase = Inhale, remaining = 4, timeoutArmed = True\<rparr>,
      \<lparr>currentPhase = Inhale, isActive = True, cycles = 11, timeRemaining = 4,
       sessionDuration = 159, startTimeRef = 0\<rparr>)"
    by (simp add: boxPattern_def tenthCycleEnding_def)
  ultimately show ?thesis by blast
qed

text \<open>
  Claim C5. One full cycle of ticks. The claim asks that from the top of a cycle, ticks
  that sum to the duration D of the cycle raise \<open>cycles\<close> by exactly 1. Evaluated on a
  4-4-4-4 session (D = 16 s) that is paused at 550 ms and resumed at 750 ms: the resume
  starts a new cycle at inhale with the full inhale time and \<open>cycles\<close> = 0, while the
  countdown of the coroutine that was pending at the pause, which nothing has stopped,
  goes on beside it. During the next 16 s the countdown of the new coroutine ticks 160
  times, and each of the two coroutines counts a cycle: \<open>cycles\<close> is 2. In a session
  that was never paused 160 ticks raise \<open>cycles\<close> to 1 and lead back to inhale with 4 s
  remaining.
\<close>

theorem stale_coroutine_counts_its_cycle:
  "Option.bind (mount 0 boxPattern) (run boxPattern pauseAndResume) =
     Some \<lparr>hooks = \<lparr>currentPhase = Inhale, isActive = True, cycles = 0, timeRemaining = 4,
                    sessionDuration = 0, startTimeRef = 750\<rparr>,
           coroutines = [Some \<lparr>cphase = Inhale, remaining = 33 / 10, timeoutArmed = False\<rparr>,
                         Some \<lparr>cphase = Inhale, remaining = 4, timeoutArmed = True\<rparr>],
           phaseTimeoutRef = Some 1\<rparr> \<and>
   inhale boxPattern + hold boxPattern + exhale boxPattern + pause boxPattern = 16 \<and>
   count_list sixteenSecondsOfTicks (Timer 1 CountdownInterval) = 160 \<and>
   Option.bind (mount 0 boxPattern) (run boxPattern (pauseAndResume @ sixteenSecondsOfTicks)) =
     Some \<lparr>hooks = \<lparr>currentPhase = Inhale, isActive = True, cycles = 2, timeRemaining = 4,
                    sessionDuration = 15, startTimeRef = 750\<rparr>,
           coroutines = [Some \<lparr>cphase = Inhale, remaining = 33 / 10, timeoutArmed = False\<rparr>,
                         Some \<lparr>cphase = Inhale, remaining = 4, timeoutArmed = True\<rparr>],
           phaseTimeoutRef = Some 1\<rparr> \<and>
   Option.bind (mount 0 boxPattern)
       (run boxPattern (replicate 160 (Timer 0 CountdownInterval))) =
     Some \<lparr>hooks = \<lparr>currentPhase = Inhale, isActive = True, cycles = 1, timeRemaining = 4,
                    sessionDuration = 0, startTimeRef = 0\<rparr>,
           coroutines = [Some \<lparr>cphase = Inhale, remaining = 4, timeoutArmed = True\<rparr>],
           phaseTimeoutRef = Some 0\<rparr>"
proof -
  have "inhale boxPattern + hold boxPattern + exhale boxPattern + pause boxPattern = 16"
    by (simp add: boxPattern_def)
  moreover have "count_list sixteenSecondsOfTicks (Timer 1 CountdownInterval) = 160"
    by (simp add: sixteenSecondsOfTicks_def secondUpTo_def bothCountdowns_def eval_nat_numeral)
  ultimately show ?thesis
    by (simp only: mount_box run_append box_pauseAndResume box_sixteenSecondsOfTicks
        box_never_paused Option.bind.simps simp_thms)
qed



text \<open>
  Claim C4. Paused frame property. The claim asks that nothing of the progress changes
  while the session is paused and that paused time is not counted. Evaluated on a
  session paused 10 s after its start: the duration tracker moves the elapsed time to
  15 s during the pause, so that resuming resets the start time to the original one and
  the 5 s of pause stay counted; and the countdown of the pending phase goes on.
\<close>

theorem paused_time_is_counted:
  "sessionDuration (toggleSession 10000 (durationTick 10000 (initialState 0))) = 10 \<and>
   \<not> isActive (toggleSession 10000 (durationTick 10000 (initialState 0))) \<and>
   sessionDuration (durationTick 15000 (toggleSession 10000 (durationTick 10000 (initialState 0))))
     = 15 \<and>
   startTimeRef (toggleSession 15000
       (durationTick 15000 (toggleSession 10000 (durationTick 10000 (initialState 0))))) = 0 \<and>
   sessionDuration (durationTick 20000 (toggleSession 15000
       (durationTick 15000 (toggleSession 10000 (durationTick 10000 (initialState 0)))))) = 20 \<and>
   SessionScreen 0 boxPattern =
     Some (Some \<lparr>cphase = Inhale, remaining = 4, timeoutArmed = True\<rparr>, boxStart) \<and>
   timeRemaining (toggleSession 10000 boxStart) = 4 \<and>
   countdownTick boxPattern
       (effectCleanup \<lparr>cphase = Inhale, remaining = 4, timeoutArmed = True\<rparr>)
       (toggleSession 10000 boxStart) =
     Some (Some \<lparr>cphase = Inhale, remaining = 39 / 10, timeoutArmed = False\<rparr>,
      \<lparr>currentPhase = Inhale, isActive = False, cycles = 0, timeRemaining = 39 / 10,
       sessionDuration = 0, startTimeRef = 0\<rparr>)"
  by (simp add: toggleSession_def durationTick_def initialState_def SessionScreen_inhale
      boxStart_def boxPattern_def countdownTick_def effectCleanup_def Let_def)

text \<open>
  The second of two calls resumes the session that the first one paused.
\<close>

theorem second_toggle_resumes:
  "isActive (toggleSession 1000 (toggleSession 1000 (initialState 0))) \<and>
   \<not> isActive (toggleSession 1000 (initialState 0)) \<and>
   toggleSession 1000 (toggleSession 1000 (initialState 0)) \<noteq> toggleSession 1000 (initialState 0)"
proof -
  have a: "isActive (toggleSession 1000 (toggleSession 1000 (initialState 0)))"
    and b: "\<not> isActive (toggleSession 1000 (initialState 0))"
    by (simp_all add: toggleSession_def initialState_def)
  then show ?thesis by metis
qed

text \<open>
  Claim C8, as amended. \<open>toggleSession\<close> is a toggle. For every state of the mounted
  screen and every pattern whose inhale duration is not 0, the first of two clicks in a
  row inverts \<open>isActive\<close> and the second gives its value back; the two clicks leave
  \<open>cycles\<close> and \<open>sessionDuration\<close> as they were; the click that resumes runs the
  breathing-cycle effect again, which starts a cycle at inhale, so that after the two
  clicks the phase is inhale with the inhale duration remaining; and the click that
  pauses changes \<open>isActive\<close> only, clears the timeout in \<open>phaseTimeoutRef\<close> and starts
  nothing.
\<close>

theorem two_clicks_restart_at_inhale:
  assumes "inhale p \<noteq> 0"
  shows "\<exists>s1 s2. step p (OrbClick t1) s = Some s1 \<and> run p [OrbClick t1, OrbClick t2] s = Some s2 \<and>
     isActive (hooks s1) = (\<not> isActive (hooks s)) \<and>
     isActive (hooks s2) = isActive (hooks s) \<and>
     cycles (hooks s2) = cycles (hooks s) \<and>
     sessionDuration (hooks s2) = sessionDuration (hooks s) \<and>
     currentPhase (hooks s2) = Inhale \<and>
     timeRemaining (hooks s2) = inhale p \<and>
     (isActive (hooks s) \<longrightarrow>
        s1 = clearPhaseTimeout (s\<lparr>hooks := (hooks s)\<lparr>isActive := False\<rparr>\<rparr>))"
proof (cases "isActive (hooks s)")
  case True
  define s1 where "s1 = clearPhaseTimeout (s\<lparr>hooks := (hooks s)\<lparr>isActive := False\<rparr>\<rparr>)"
  have 1: "step p (OrbClick t1) s = Some s1"
    unfolding s1_def by (rule click_pauses [OF True])
  have h1: "hooks s1 = (hooks s)\<lparr>isActive := False\<rparr>"
    by (simp add: s1_def hooks_clearPhaseTimeout)
  then have "\<not> isActive (hooks s1)" by simp
  from click_resumes [OF this assms, of t2] obtain s2 where
    2: "step p (OrbClick t2) s1 = Some s2"
    and h2: "hooks s2 = (hooks s1)\<lparr>isActive := True,
        startTimeRef := t2 - sessionDuration (hooks s1) * 1000,
        currentPhase := Inhale, timeRemaining := inhale p\<rparr>"
    by blast
  from 1 2 have r: "run p [OrbClick t1, OrbClick t2] s = Some s2" by simp
  show ?thesis
    apply (rule exI [of _ s1])
    apply (rule exI [of _ s2])
    using 1 r h1 h2 True by (simp add: s1_def)
next
  case False
  from click_resumes [OF False assms, of t1] obtain s1 where
    1: "step p (OrbClick t1) s = Some s1"
    and h1: "hooks s1 = (hooks s)\<lparr>isActive := True,
        startTimeRef := t1 - sessionDuration (hooks s) * 1000,
        currentPhase := Inhale, timeRemaining := inhale p\<rparr>"
    by blast
  then have a: "isActive (hooks s1)" by simp
  define s2 where "s2 = clearPhaseTimeout (s1\<lparr>hooks := (hooks s1)\<lparr>isActive := False\<rparr>\<rparr>)"
  have 2: "step p (OrbClick t2) s1 = Some s2"
    unfolding s2_def by (rule click_pauses [OF a])
  have h2: "hooks s2 = (hooks s1)\<lparr>isActive := False\<rparr>"
    by (simp add: s2_def hooks_clearPhaseTimeout)
  from 1 2 have r: "run p [OrbClick t1, OrbClick t2] s = Some s2" by simp
  show ?thesis
    apply (rule exI [of _ s1])
    apply (rule exI [of _ s2])
    using 1 r h1 h2 False by simp
qed

theorem two_clicks_restart_at_inhale_witness:
  "\<exists>s1 s2.
     step boxPattern (OrbClick 5050)
       \<lparr>hooks = \<lparr>currentPhase = Hold, isActive = True, cycles = 0, timeRemaining = 3,
                  sessionDuration = 5, startTimeRef = 0\<rparr>,
        coroutines = [Some \<lparr>cphase = Hold, remaining = 3, timeoutArmed = True\<rparr>],
        phaseTimeoutRef = Some 0\<rparr> = Some s1 \<and>
     run boxPattern [OrbClick 5050, OrbClick 5080]
       \<lparr>hooks = \<lparr>currentPhase = Hold, isActive = True, cycles = 0, timeRemaining = 3,
                  sessionDuration = 5, startTimeRef = 0\<rparr>,
        coroutines = [Some \<lparr>cphase = Hold, remaining = 3, timeoutArmed = True\<rparr>],
        phaseTimeoutRef = Some 0\<rparr> = Some s2 \<and>
     \<not> isActive (hooks s1) \<and> isActive (hooks s2) \<and> cycles (hooks s2) = 0 \<and>
     sessionDuration (hooks s2) = 5 \<and> currentPhase (hooks s2) = Inhale \<and>
     timeRemaining (hooks s2) = 4 \<and>
     s1 = \<lparr>hooks = \<lparr>currentPhase = Hold, isActive = False, cycles = 0, timeRemaining = 3,
                  sessionDuration = 5, startTimeRef = 0\<rparr>,
        coroutines = [Some \<lparr>cphase = Hold, remaining = 3, timeoutArmed = False\<rparr>],
        phaseTimeoutRef = Some 0\<rparr>"
  using two_clicks_restart_at_inhale [where p = boxPattern and ?t1.0 = 5050 and ?t2.0 = 5080
      and s = "\<lparr>hooks = \<lparr>currentPhase = Hold, isActive = True, cycles = 0, timeRemaining = 3,
                  sessionDuration = 5, startTimeRef = 0\<rparr>,
        coroutines = [Some \<lparr>cphase = Hold, remaining = 3, timeoutArmed = True\<rparr>],
        phaseTimeoutRef = Some 0\<rparr>"]
  by (simp add: boxPattern_def clearPhaseTimeout_def effectCleanup_def)

section \<open>Saved sessions\<close>

lemma timestampOf_sessionJson:
  "timestampOf (sessionJson s) = Inr (Value (JNum (of_int (timestamp s))))"
  by (cases "savedPatternName s") (simp_all add: sessionJson_def)

lemma hours_less_24_iff:
  "hoursSinceLastSession now (of_int ts) < 24 \<longleftrightarrow> now - ts < 86400000"
proof -
  have "hoursSinceLastSession now (of_int ts) < 24 \<longleftrightarrow> (of_int (now - ts) :: rat) < of_int 86400000"
    by (simp add: hoursSinceLastSession_def field_simps)
  also have "\<dots> \<longleftrightarrow> now - ts < 86400000"
    by (simp only: of_int_less_iff)
  finally show ?thesis .
qed

lemma check_parsed_snapshot:
  assumes "store savedSessionKey = Some saved" and "parseJSON js saved = Inr (sessionJson snap)"
  shows "checkForSavedSession js now (pr, store) =
     (if now - timestamp snap < 86400000
      then (pr\<lparr>savedSession := Some (sessionJson snap), showPrompt := True\<rparr>, store)
      else (pr\<lparr>savedSession := None\<rparr>, store(savedSessionKey := None)))"
proof -
  from assms(2) have "saved \<noteq> []"
    by (auto simp: parseJSON_def)
  with assms show ?thesis
    by (simp add: checkForSavedSession_def timestampOf_sessionJson savedLessThan24h_def
        hours_less_24_iff clearSavedSession_def)
qed

text \<open>
  Claim C7. Freshness window. With no saved item \<open>checkForSavedSession\<close> does nothing.
  With the text of a saved session it offers that session exactly when
  \<open>(now - timestamp) / 3600000 < 24\<close>, and otherwise removes the item and offers
  nothing; a session saved 24 h less 1 ms ago is offered, one saved 24 h and 1 ms ago is
  removed. The check of the application raises its prompt under the same condition.
\<close>

theorem freshness_window:
  "(store savedSessionKey = None \<longrightarrow> checkForSavedSession js now (pr, store) = (pr, store)) \<and>
   (store savedSessionKey = Some saved \<and> parseJSON js saved = Inr (sessionJson snap) \<longrightarrow>
      checkForSavedSession js now (pr, store) =
        (if rat_of_int (now - timestamp snap) / 3600000 < 24
         then (pr\<lparr>savedSession := Some (sessionJson snap), showPrompt := True\<rparr>, store)
         else (pr\<lparr>savedSession := None\<rparr>, store(savedSessionKey := None))) \<and>
      (timestamp snap = now - 24 * 3600000 + 1 \<longrightarrow>
         checkForSavedSession js now (pr, store) =
           (pr\<lparr>savedSession := Some (sessionJson snap), showPrompt := True\<rparr>, store)) \<and>
      (timestamp snap = now - 24 * 3600000 - 1 \<longrightarrow>
         checkForSavedSession js now (pr, store) =
           (pr\<lparr>savedSession := None\<rparr>, store(savedSessionKey := None))) \<and>
      showSavedSessionPrompt (appSavedSessionCheck js now store a) =
        (showSavedSessionPrompt a \<or> rat_of_int (now - timestamp snap) / 3600000 < 24))"
proof (intro conjI impI)
  assume "store savedSessionKey = None"
  then show "checkForSavedSession js now (pr, store) = (pr, store)"
    by (simp add: checkForSavedSession_def)
next
  assume a: "store savedSessionKey = Some saved \<and> parseJSON js saved = Inr (sessionJson snap)"
  have "rat_of_int (now - timestamp snap) / 3600000 < 24 \<longleftrightarrow> now - timestamp snap < 86400000"
    using hours_less_24_iff [of now "timestamp snap"] by (simp add: hoursSinceLastSession_def)
  with a show "checkForSavedSession js now (pr, store) =
        (if rat_of_int (now - timestamp snap) / 3600000 < 24
         then (pr\<lparr>savedSession := Some (sessionJson snap), showPrompt := True\<rparr>, store)
         else (pr\<lparr>savedSession := None\<rparr>, store(savedSessionKey := None)))"
    by (simp only: check_parsed_snapshot)
next
  assume a: "store savedSessionKey = Some saved \<and> parseJSON js saved = Inr (sessionJson snap)"
    and t: "timestamp snap = now - 24 * 3600000 + 1"
  from a t show "checkForSavedSession js now (pr, store) =
           (pr\<lparr>savedSession := Some (sessionJson snap), showPrompt := True\<rparr>, store)"
    by (simp add: check_parsed_snapshot)
next
  assume a: "store savedSessionKey = Some saved \<and> parseJSON js saved = Inr (sessionJson snap)"
    and t: "timestamp snap = now - 24 * 3600000 - 1"
  from a t show "checkForSavedSession js now (pr, store) =
           (pr\<lparr>savedSession := None\<rparr>, store(savedSessionKey := None))"
    by (simp add: check_parsed_snapshot)
next
  assume a: "store savedSessionKey = Some saved \<and> parseJSON js saved = Inr (sessionJson snap)"
  then have "saved \<noteq> []"
    by (auto simp: parseJSON_def)
  with a show "showSavedSessionPrompt (appSavedSessionCheck js now store a) =
        (showSavedSessionPrompt a \<or> rat_of_int (now - timestamp snap) / 3600000 < 24)"
    by (simp add: appSavedSessionCheck_def timestampOf_sessionJson savedLessThan24h_def
        hoursSinceLastSession_def)
qed

lemma sampleJs_parse_snapshot: "parseJSON sampleJs ''snapshot'' = Inr (sessionJson sampleSnapshot)"
  by (simp add: parseJSON_def sampleJs_def)

theorem freshness_window_witness:
  "checkForSavedSession sampleJs 2000 (initialPrompt, Map.empty) = (initialPrompt, Map.empty) \<and>
   checkForSavedSession sampleJs (1000 + 24 * 3600000 - 1)
       (initialPrompt, [savedSessionKey \<mapsto> ''snapshot'']) =
     (\<lparr>savedSession = Some (sessionJson sampleSnapshot), showPrompt = True\<rparr>,
      [savedSessionKey \<mapsto> ''snapshot'']) \<and>
   checkForSavedSession sampleJs (1000 + 24 * 3600000 + 1)
       (initialPrompt, [savedSessionKey \<mapsto> ''snapshot'']) =
     (\<lparr>savedSession = None, showPrompt = False\<rparr>, Map.empty)"
proof -
  have ts: "timestamp sampleSnapshot = 1000"
    by (simp add: sampleSnapshot_def)
  have s: "[savedSessionKey \<mapsto> ''snapshot''] savedSessionKey = Some ''snapshot''"
    by simp
  note t0 = freshness_window [of Map.empty sampleJs 2000 initialPrompt, THEN conjunct1, rule_format]
  note t1 = freshness_window [of "[savedSessionKey \<mapsto> ''snapshot'']" sampleJs
      "1000 + 24 * 3600000 - 1" initialPrompt "''snapshot''" sampleSnapshot,
      THEN conjunct2, rule_format, OF conjI, OF s sampleJs_parse_snapshot,
      THEN conjunct2, THEN conjunct1, rule_format]
  note t2 = freshness_window [of "[savedSessionKey \<mapsto> ''snapshot'']" sampleJs
      "1000 + 24 * 3600000 + 1" initialPrompt "''snapshot''" sampleSnapshot,
      THEN conjunct2, rule_format, OF conjI, OF s sampleJs_parse_snapshot,
      THEN conjunct2, THEN conjunct2, rule_format]
  from t0 t1 t2 ts show ?thesis
    by (simp add: initialPrompt_def)
qed

text \<open>
  Claim C9. Malformed-snapshot handling. The claim asks that a stored value with
  required fields missing is deleted, not offered, and raises no error. Evaluated on a
  stored object that has a fresh timestamp and no other member: \<open>checkForSavedSession\<close>
  keeps it in the store and sets it as the session to offer, the check of the
  application raises the prompt, \<open>getSavedSession\<close> returns it, and the render of the
  prompt throws a \<open>TypeError\<close> at \<open>savedSession.progress.cyclesCompleted\<close>. A text
  that does not parse is removed and nothing is rendered.
\<close>

theorem snapshot_without_progress_throws:
  "checkForSavedSession sampleJs 2000 (initialPrompt, [savedSessionKey \<mapsto> ''stamp'']) =
     (\<lparr>savedSession = Some (JObj [(''timestamp'', JNum 1000)]), showPrompt = True\<rparr>,
      [savedSessionKey \<mapsto> ''stamp'']) \<and>
   SessionAutoSave
     (fst (checkForSavedSession sampleJs 2000 (initialPrompt, [savedSessionKey \<mapsto> ''stamp''])))
     = Inl TypeError \<and>
   showSavedSessionPrompt
     (appSavedSessionCheck sampleJs 2000 [savedSessionKey \<mapsto> ''stamp'']
        \<lparr>currentScreen = Home, selectedExercise = None, customPattern = None,
         showSavedSessionPrompt = False\<rparr>) \<and>
   getSavedSession sampleJs [savedSessionKey \<mapsto> ''stamp''] =
     (Some (JObj [(''timestamp'', JNum 1000)]), [savedSessionKey \<mapsto> ''stamp'']) \<and>
   checkForSavedSession sampleJs 2000 (initialPrompt, [savedSessionKey \<mapsto> ''{bad'']) =
     (initialPrompt, Map.empty) \<and>
   SessionAutoSave
     (fst (checkForSavedSession sampleJs 2000 (initialPrompt, [savedSessionKey \<mapsto> ''{bad''])))
     = Inr None"
  by (simp add: checkForSavedSession_def appSavedSessionCheck_def getSavedSession_def
      parseJSON_def sampleJs_def savedLessThan24h_def hoursSinceLastSession_def
      initialPrompt_def SessionAutoSave_def completionPercentage_def clearSavedSession_def)

text \<open>
  Claim C10. First-cycle snapshot gap. Unless the session is active with at least one
  completed cycle, none of the three save paths writes; so when the store holds no
  saved session it still holds none afterwards, and neither check offers a resume.
\<close>

theorem snapshot_only_after_first_cycle:
  assumes "\<not> (isActive scr \<and> 0 < cycles scr)"
  shows "saveOn js p name trig now scr store = store \<and>
     (store savedSessionKey = None \<longrightarrow>
        checkForSavedSession js later (pr, saveOn js p name trig now scr store) =
          (pr, saveOn js p name trig now scr store) \<and>
        appSavedSessionCheck js later (saveOn js p name trig now scr store) a = a) \<and>
     (isActive scr' \<and> 0 < cycles scr' \<longrightarrow>
        saveOn js p name BeforeUnload now scr' store savedSessionKey =
          Some (JSON_stringify js (sessionJson
            (sessionData js p name (currentProgress scr') (sessionDuration scr') now))))"
proof -
  from assms have "saveOn js p name trig now scr store = store"
    by (cases trig) auto
  then show ?thesis
    by (simp add: checkForSavedSession_def appSavedSessionCheck_def saveFromScreen_def
        saveSession_def)
qed

theorem snapshot_only_after_first_cycle_witness:
  "SessionScreen 0 boxPattern =
     Some (Some \<lparr>cphase = Inhale, remaining = 4, timeoutArmed = True\<rparr>, boxStart) \<and>
   saveOn sampleJs boxPattern None BeforeUnload 3000 boxStart Map.empty = Map.empty \<and>
   checkForSavedSession sampleJs 5000
     (initialPrompt, saveOn sampleJs boxPattern None BeforeUnload 3000 boxStart Map.empty)
     = (initialPrompt, Map.empty)"
proof -
  have h: "\<not> (isActive boxStart \<and> 0 < cycles boxStart)"
    by (simp add: boxStart_def)
  note t = snapshot_only_after_first_cycle [OF h, of sampleJs boxPattern None BeforeUnload 3000
      Map.empty 5000 initialPrompt homeApp midSession]
  from t have a: "saveOn sampleJs boxPattern None BeforeUnload 3000 boxStart Map.empty = Map.empty"
    by blast
  from t have b: "checkForSavedSession sampleJs 5000
     (initialPrompt, saveOn sampleJs boxPattern None BeforeUnload 3000 boxStart Map.empty)
     = (initialPrompt, saveOn sampleJs boxPattern None BeforeUnload 3000 boxStart Map.empty)"
    by blast
  have c: "SessionScreen 0 boxPattern =
     Some (Some \<lparr>cphase = Inhale, remaining = 4, timeoutArmed = True\<rparr>, boxStart)"
    by (simp add: SessionScreen_inhale boxPattern_def boxStart_def)
  show ?thesis
    unfolding a using b [unfolded a] c by simp
qed

text \<open>
  Claim C1. Snapshot round-trip. The claim asks that resuming from the snapshot of a
  session gives a session with the progress of the snapshot. Evaluated on a session in
  the exhale of its fourth cycle, 57 s in: the snapshot holds that progress, and the
  session screen that \<open>handleResumeSession\<close> leads to starts at inhale with 0 cycles and 0 s.
\<close>

theorem resume_restarts_at_inhale:
  "progress (sessionData sampleJs boxPattern (Some ''Box'') (currentProgress midSession)
       (sessionDuration midSession) 57000) =
     \<lparr>cyclesCompleted = 3, progressTotalCycles = 10, timeElapsed = 57,
      progressPhase = Exhale, phaseTimeRemaining = 5 / 2\<rparr> \<and>
   map_option (\<lambda>st. currentProgress (snd st))
     (renderSessionScreen 60000
        (handleResumeSession
           (sessionData sampleJs boxPattern (Some ''Box'') (currentProgress midSession)
              (sessionDuration midSession) 57000)
           homeApp)) =
     Some \<lparr>cyclesCompleted = 0, progressTotalCycles = 10, timeElapsed = 0,
           progressPhase = Inhale, phaseTimeRemaining = 4\<rparr>"
  by (simp add: sessionData_def currentProgress_def midSession_def totalCycles_def
      renderSessionScreen_def handleResumeSession_def navigateToScreen_def homeApp_def
      SessionScreen_inhale boxPattern_def)

end
